theory Spec2Isabelle
  imports Complex_Main
begin

section \<open>Amounts and configuration\<close>

text \<open>
  Amounts of XRD are Python floats in the source. They are embedded as exact rationals, so
  every statement below is about the arithmetic the code writes down, not about binary
  rounding. The constants are those of \<^verbatim>\<open>bot_fixed.py\<close>; \<^verbatim>\<open>MAX_WIN_PERCENTAGE\<close> is read
  from the process environment (default 5) and is therefore a parameter of the functions
  that use it.
\<close>

type_synonym xrd = rat
type_synonym address = string
type_synonym key = string
type_synonym user_id = int

definition MIN_SPIN_AMOUNT :: xrd where
  "MIN_SPIN_AMOUNT = 1"

definition MAX_SPIN_AMOUNT :: xrd where
  "MAX_SPIN_AMOUNT = 1000"

section \<open>Wager validation: \<^verbatim>\<open>calculate_max_bet\<close>\<close>

text \<open>
  \<^verbatim>\<open>calculate_max_bet(game_balance, is_seven_spin, is_die)\<close>, with the configured
  percentage as first argument.
\<close>

definition calculate_max_bet :: "rat \<Rightarrow> xrd \<Rightarrow> bool \<Rightarrow> bool \<Rightarrow> xrd" where
  "calculate_max_bet max_win_percentage game_balance is_seven_spin is_die =
     (let multiplier = (if is_seven_spin then 48 else (if is_die then 5 else 12));
          max_win = max 0 (game_balance * (max_win_percentage / 100));
          max_bet = min MAX_SPIN_AMOUNT (max_win / multiplier)
      in if is_seven_spin then min max_bet (MAX_SPIN_AMOUNT / 4) else max_bet)"

section \<open>The collaborators: store, ledger reads, chat replies\<close>

text \<open>
  What the handlers read from their surroundings is collected in one record: the rows of
  the \<^verbatim>\<open>users\<close> table, the singleton \<^verbatim>\<open>game_stats\<close> row, the live ledger balance returned
  by \<^verbatim>\<open>get_radix_balance\<close> (\<open>None\<close> when the gateway request raises), Python's \<^verbatim>\<open>float()\<close>
  and \<^verbatim>\<open>int()\<close> on a command argument (\<open>None\<close> for \<^verbatim>\<open>ValueError\<close>), the module globals
  consulted by \<^verbatim>\<open>check_maintenance_mode\<close>, and the verdict of \<^verbatim>\<open>check_chat_permissions\<close>,
  which belongs to command routing. Chat replies and store accesses themselves are assumed
  not to raise.
\<close>

record env =
  users :: "user_id \<rightharpoonup> address \<times> key \<times> key"
  game_account :: "(address \<times> key \<times> key) option"
  radix_balance :: "address \<Rightarrow> xrd option"
  float_of :: "string \<Rightarrow> xrd option"
  int_of :: "string \<Rightarrow> int option"
  MAX_WIN_PERCENTAGE :: rat
  GAME_OWNER_TELEGRAM_ID :: user_id
  MAINTENANCE_MODE :: bool
  chat_permitted :: bool

text \<open>
  The texts sent to the user, one constructor per message of the source. A constructor
  carries the values its text is built from; the success reply of a withdrawal carries the
  withdrawn amount as the text prints it, with two decimals.
\<close>

datatype reply =
    MaintenanceMode
  | NotPermitted
  | NoAccountYet
  | BalanceBelowMinimum xrd
  | MinimumSpinAmountIs
  | ExceedsMaximumAdjusting xrd xrd
  | InvalidAmount
  | AmountProcessingError
  | SpinInProgress
  | SpinUsage
  | SpinsMustBeBetween
  | InvalidNumberOfSpins
  | InsufficientBalanceForSpins int xrd xrd
  | Rolling int xrd
  | AccountNotFound
  | GameAccountNotConfigured
  | TransactionFailed string
  | Results "nat list" xrd xrd xrd
  | WithdrawWhileSpinning
  | WithdrawUsage
  | EnterPositiveAmount
  | InvalidWithdrawAmount
  | InsufficientBalance xrd
  | WithdrawalTooSmall
  | WithdrawFailedLater string
  | WithdrewSuccessfully xrd address xrd string
  | WithdrawalNotCompleted string

text \<open>\<^verbatim>\<open>str.lower()\<close> on the ASCII letters, which decides the comparison with \<^verbatim>\<open>"max"\<close>.\<close>

definition lower_char :: "char \<Rightarrow> char" where
  "lower_char c =
     (let n = (of_char c :: nat) in if 65 \<le> n \<and> n \<le> 90 then char_of (n + 32) else c)"

definition lower :: "string \<Rightarrow> string" where
  "lower s = map lower_char s"

text \<open>
  \<^verbatim>\<open>get_game_account_balance\<close>: \<^verbatim>\<open>get_game_account_info\<close> raises \<^verbatim>\<open>ValueError\<close> when the
  \<^verbatim>\<open>game_stats\<close> row is missing; otherwise the live balance of the game address.
\<close>

definition get_game_account_balance :: "env \<Rightarrow> xrd option" where
  "get_game_account_balance w =
     (case game_account w of
        None \<Rightarrow> None
      | Some (game_address, game_private_key, game_public_key) \<Rightarrow> radix_balance w game_address)"

definition check_maintenance_mode :: "env \<Rightarrow> user_id \<Rightarrow> bool" where
  "check_maintenance_mode w user_id =
     (if user_id = GAME_OWNER_TELEGRAM_ID w then True
      else if MAINTENANCE_MODE w then False
      else True)"

section \<open>Wager validation: \<^verbatim>\<open>get_spin_amount\<close>\<close>

text \<open>
  The result is the list of replies sent and the returned amount (\<open>None\<close> is Python's
  \<^verbatim>\<open>None\<close>, a rejection). Any exception inside the function is caught by its outer handler,
  which replies with the generic error text and returns \<^verbatim>\<open>None\<close>.
\<close>

definition get_spin_amount ::
  "env \<Rightarrow> user_id \<Rightarrow> string \<Rightarrow> bool \<Rightarrow> bool \<Rightarrow> reply list \<times> xrd option" where
  "get_spin_amount w user_id arg is_seven_spin is_die =
     (case get_game_account_balance w of
        None \<Rightarrow> ([AmountProcessingError], None)
      | Some game_balance \<Rightarrow>
          (let max_bet = calculate_max_bet (MAX_WIN_PERCENTAGE w) game_balance is_seven_spin is_die
           in if lower arg = ''max'' then
                (case users w user_id of
                   None \<Rightarrow> ([NoAccountYet], None)
                 | Some (address, private_key, public_key) \<Rightarrow>
                     (case radix_balance w address of
                        None \<Rightarrow> ([AmountProcessingError], None)
                      | Some user_balance \<Rightarrow>
                          (let user_max_bet = max 0 (user_balance - 1 / 2);
                               amount = min max_bet user_max_bet
                           in if amount < MIN_SPIN_AMOUNT
                              then ([BalanceBelowMinimum user_balance], None)
                              else ([], Some amount))))
              else
                (case float_of w arg of
                   None \<Rightarrow> ([InvalidAmount], None)
                 | Some amount \<Rightarrow>
                     if amount < MIN_SPIN_AMOUNT then ([MinimumSpinAmountIs], None)
                     else if amount > max_bet
                     then ([ExceedsMaximumAdjusting amount max_bet], Some max_bet)
                     else ([], Some amount))))"

section \<open>Session guard and the \<^verbatim>\<open>/spin\<close> handler\<close>

text \<open>
  The mutable state shared by the handlers: the process-wide \<^verbatim>\<open>ongoing_spins\<close> dictionary,
  the \<^verbatim>\<open>total_winnings_paid\<close> counter of the singleton \<^verbatim>\<open>game_stats\<close> row and the
  append-only \<^verbatim>\<open>transactions\<close> table (user, action, amount).
\<close>

record bot_state =
  ongoing_spins :: "user_id \<rightharpoonup> bool"
  total_winnings_paid :: xrd
  transactions :: "(user_id \<times> string \<times> xrd) list"

text \<open>\<^verbatim>\<open>ongoing_spins[user_id] = True\<close> and \<^verbatim>\<open>ongoing_spins[user_id] = False\<close>.\<close>

definition set_ongoing :: "bot_state \<Rightarrow> user_id \<Rightarrow> bot_state" where
  "set_ongoing s user_id = s\<lparr>ongoing_spins := (ongoing_spins s)(user_id \<mapsto> True)\<rparr>"

definition clear_ongoing :: "bot_state \<Rightarrow> user_id \<Rightarrow> bot_state" where
  "clear_ongoing s user_id = s\<lparr>ongoing_spins := (ongoing_spins s)(user_id \<mapsto> False)\<rparr>"

text \<open>\<^verbatim>\<open>ongoing_spins.get(user_id)\<close> used as a condition.\<close>

definition is_ongoing :: "bot_state \<Rightarrow> user_id \<Rightarrow> bool" where
  "is_ongoing s user_id = (ongoing_spins s user_id = Some True)"

text \<open>
  How a call of \<^verbatim>\<open>spin\<close> ends: it returns without starting anything, it starts the task
  \<^verbatim>\<open>process_multiple_spins(message, amount, user_id, num_spins)\<close>, or the exception of a
  failed balance request is re-raised after the flag has been cleared.
\<close>

datatype spin_outcome = Rejected | Task xrd user_id int | Raised

text \<open>The parsing of the optional second argument, the number of spins.\<close>

definition parse_num_spins :: "env \<Rightarrow> string list \<Rightarrow> reply + int" where
  "parse_num_spins w args =
     (if length args > 1 then
        (case int_of w (args ! 1) of
           None \<Rightarrow> Inl InvalidNumberOfSpins
         | Some num_spins \<Rightarrow>
             if num_spins < 1 \<or> num_spins > 3 then Inl SpinsMustBeBetween else Inr num_spins)
      else Inr 1)"

definition spin ::
  "env \<Rightarrow> bot_state \<Rightarrow> user_id \<Rightarrow> string list \<Rightarrow> reply list \<times> spin_outcome \<times> bot_state" where
  "spin w s user_id args =
     (if \<not> check_maintenance_mode w user_id then ([MaintenanceMode], Rejected, s)
      else if \<not> chat_permitted w then ([NotPermitted], Rejected, s)
      else if is_ongoing s user_id then ([SpinInProgress], Rejected, s)
      else if args = [] then ([SpinUsage], Rejected, s)
      else
        (case parse_num_spins w args of
           Inl r \<Rightarrow> ([r], Rejected, s)
         | Inr num_spins \<Rightarrow>
             (let s1 = set_ongoing s user_id in
              case get_spin_amount w user_id (hd args) False False of
                (rs, None) \<Rightarrow> (rs, Rejected, clear_ongoing s1 user_id)
              | (rs, Some amount) \<Rightarrow>
                  (case users w user_id of
                     None \<Rightarrow> (rs @ [NoAccountYet], Rejected, clear_ongoing s1 user_id)
                   | Some (address, private_key, public_key) \<Rightarrow>
                       (case radix_balance w address of
                          None \<Rightarrow> (rs, Raised, clear_ongoing s1 user_id)
                        | Some balance \<Rightarrow>
                            (let total_needed = amount * of_int num_spins + 1 / 2
                             in if balance < total_needed
                                then (rs @ [InsufficientBalanceForSpins num_spins total_needed balance],
                                      Rejected, clear_ongoing s1 user_id)
                                else (rs, Task amount user_id num_spins, s1)))))))"

section \<open>Ledger integration: \<^verbatim>\<open>radix_integration.py\<close>\<close>

text \<open>
  A transaction manifest is a Python string built from a template; it is embedded as the
  list of its instructions. All transfers are in XRD, so the resource address is left out.
\<close>

datatype instruction =
    LockFee address xrd
  | WithdrawXRD address xrd
  | TakeFromWorktop xrd string
  | TakeAllFromWorktop string
  | TryDepositOrAbort address string

type_synonym manifest = "instruction list"

definition settle_spin_manifest :: "address \<Rightarrow> address \<Rightarrow> xrd \<Rightarrow> manifest" where
  "settle_spin_manifest game_address player_address net_result =
     (if net_result > 0 then
        [LockFee game_address (1 / 2),
         WithdrawXRD game_address net_result,
         TakeFromWorktop net_result ''winnings'',
         TryDepositOrAbort player_address ''winnings'']
      else
        [LockFee player_address (1 / 2),
         WithdrawXRD player_address \<bar>net_result\<bar>,
         TakeFromWorktop \<bar>net_result\<bar> ''payment'',
         TryDepositOrAbort game_address ''payment''])"

definition withdraw_tokens_manifest :: "address \<Rightarrow> address \<Rightarrow> xrd \<Rightarrow> manifest" where
  "withdraw_tokens_manifest player_address destination_address amount =
     [LockFee player_address 1,
      WithdrawXRD player_address (amount - 1000001 / 1000000),
      TakeAllFromWorktop ''tokens'',
      TryDepositOrAbort destination_address ''tokens'']"

text \<open>
  Result dictionaries (\<^verbatim>\<open>Dict[str, Any]\<close>) are association lists from keys to strings;
  \<open>has_key\<close> is \<^verbatim>\<open>key in d\<close> and \<open>dict_get\<close> is \<^verbatim>\<open>d.get(key, default)\<close>.
\<close>

type_synonym pydict = "(string \<times> string) list"

definition has_key :: "pydict \<Rightarrow> string \<Rightarrow> bool" where
  "has_key d k = (map_of d k \<noteq> None)"

definition dict_get :: "pydict \<Rightarrow> string \<Rightarrow> string \<Rightarrow> string" where
  "dict_get d k dflt = (case map_of d k of None \<Rightarrow> dflt | Some v \<Rightarrow> v)"

text \<open>
  One answer of the gateway's \<^verbatim>\<open>/transaction/status\<close> endpoint: the request raises, or it
  returns a JSON object.
\<close>

datatype poll = PollError | PollJson pydict

text \<open>
  The behaviour of the ledger collaborator during one submission: the two mode flags of the
  module, the identifier made up in simulation mode, the message of an exception raised
  while the manifest is parsed and validated, whether the signer's keys can be converted,
  the message of an exception raised while the epoch is fetched or the transaction is
  notarized and submitted, the intent hash, and the successive answers to the status
  request for a transaction.
\<close>

record gateway =
  SIMULATION_MODE :: bool
  USING_REAL_TOOLKIT :: bool
  sim_transaction_id :: string
  manifest_error :: "string option"
  keys_convertible :: bool
  submit_error :: "string option"
  intent_hash :: string
  status_polls :: "string \<Rightarrow> nat \<Rightarrow> poll"

text \<open>
  The loop of \<^verbatim>\<open>check_transaction_status\<close>: \<open>n\<close> attempts are left and \<open>i\<close> answers have
  been consumed. A final status returns the gateway's answer at once; after the last
  attempt the function returns its own time-out dictionary with status \<^verbatim>\<open>Unknown\<close>.
\<close>

fun poll_status :: "nat \<Rightarrow> nat \<Rightarrow> (nat \<Rightarrow> poll) \<Rightarrow> pydict" where
  "poll_status 0 i polls =
     [(''status'', ''Unknown''),
      (''error_message'', ''Timed out waiting for transaction confirmation'')]"
| "poll_status (Suc n) i polls =
     (case polls i of
        PollError \<Rightarrow> poll_status n (Suc i) polls
      | PollJson result \<Rightarrow>
          (let status = dict_get result ''status'' ''Unknown''
           in if status \<in> set [''CommittedSuccess'', ''CommittedFailure'', ''Rejected'']
              then result
              else poll_status n (Suc i) polls))"

definition check_transaction_status :: "gateway \<Rightarrow> string \<Rightarrow> pydict" where
  "check_transaction_status g transaction_id =
     (if SIMULATION_MODE g then [(''status'', ''CommittedSuccess'')]
      else poll_status 10 0 (status_polls g transaction_id))"

definition submit_transaction_with_manifest ::
  "gateway \<Rightarrow> manifest \<Rightarrow> address \<Rightarrow> key \<Rightarrow> key \<Rightarrow> pydict" where
  "submit_transaction_with_manifest g manifest_string sender_address private_key_str public_key_str =
     (if SIMULATION_MODE g then
        [(''transaction_id'', sim_transaction_id g), (''status'', ''CommittedSuccess'')]
      else if USING_REAL_TOOLKIT g then
        (case manifest_error g of
           Some e \<Rightarrow> [(''error'', e)]
         | None \<Rightarrow>
             if \<not> keys_convertible g
             then [(''error'', ''Failed to process keys for transaction'')]
             else
               (case submit_error g of
                  Some e \<Rightarrow> [(''error'', e)]
                | None \<Rightarrow>
                    (let transaction_id = intent_hash g;
                         status_result = check_transaction_status g transaction_id
                     in [(''transaction_id'', transaction_id),
                         (''status'', dict_get status_result ''status'' ''Unknown''),
                         (''error_message'', dict_get status_result ''error_message'' [])])))
      else [(''error'', ''Configuration error'')])"

text \<open>The calls made to the ledger collaborator, in the order they are made.\<close>

datatype ledger_call = GetBalance address | Submit manifest address key key

fun is_submit :: "ledger_call \<Rightarrow> bool" where
  "is_submit (Submit m a k p) = True"
| "is_submit (GetBalance a) = False"

section \<open>Settlement: \<^verbatim>\<open>process_multiple_spins\<close> and its siblings\<close>

text \<open>
  The result loop of the three batch processors is the same text up to the winning test
  and the multiplier: \<^verbatim>\<open>for i, dice_msg in enumerate(dice_messages)\<close> appends \<open>i + 1\<close> to the
  winning plays and adds \<open>amount * multiplier\<close> to the total for each winning value.
\<close>

fun tally :: "(nat \<Rightarrow> bool) \<Rightarrow> xrd \<Rightarrow> xrd \<Rightarrow> nat \<Rightarrow> nat list \<Rightarrow> nat list \<times> xrd \<Rightarrow> nat list \<times> xrd" where
  "tally is_win multiplier amount i [] (winning_spins, total_winnings) =
     (winning_spins, total_winnings)"
| "tally is_win multiplier amount i (dice_value # rest) (winning_spins, total_winnings) =
     (if is_win dice_value
      then tally is_win multiplier amount (Suc i) rest
             (winning_spins @ [i + 1], total_winnings + amount * multiplier)
      else tally is_win multiplier amount (Suc i) rest (winning_spins, total_winnings))"

text \<open>
  Lines 584 to 593 of \<^verbatim>\<open>process_multiple_spins\<close> and the same lines of
  \<^verbatim>\<open>process_multiple_spins_7s\<close> and \<^verbatim>\<open>process_multiple_die_rolls\<close>: the winning plays, the total
  winnings, the total cost and the net result.
\<close>

definition settle_with ::
  "(nat \<Rightarrow> bool) \<Rightarrow> xrd \<Rightarrow> xrd \<Rightarrow> int \<Rightarrow> nat list \<Rightarrow> nat list \<times> xrd \<times> xrd \<times> xrd" where
  "settle_with is_win multiplier amount num_spins dice_values =
     (let (winning_spins, total_winnings) = tally is_win multiplier amount 0 dice_values ([], 0);
          total_cost = amount * of_int num_spins;
          net_result = total_winnings - total_cost
      in (winning_spins, total_winnings, total_cost, net_result))"

definition settle_spins :: "xrd \<Rightarrow> int \<Rightarrow> nat list \<Rightarrow> nat list \<times> xrd \<times> xrd \<times> xrd" where
  "settle_spins = settle_with (\<lambda>dice_value. dice_value \<in> set [1, 22, 43, 64]) 12"

definition settle_spins_7s :: "xrd \<Rightarrow> int \<Rightarrow> nat list \<Rightarrow> nat list \<times> xrd \<times> xrd \<times> xrd" where
  "settle_spins_7s = settle_with (\<lambda>dice_value. dice_value = 64) 48"

definition settle_die_rolls :: "xrd \<Rightarrow> int \<Rightarrow> nat list \<Rightarrow> nat list \<times> xrd \<times> xrd \<times> xrd" where
  "settle_die_rolls = settle_with (\<lambda>dice_value. dice_value = 6) 5"

text \<open>
  \<^verbatim>\<open>process_multiple_spins(message, amount, user_id, num_spins)\<close>. \<open>dice k\<close> is the value of
  the \<open>k\<close>-th dice message; one is sent per spin. The result is the replies (the initial
  message and its final edit), the ledger calls and the new state. An early \<^verbatim>\<open>return\<close>
  clears the busy flag itself and the \<^verbatim>\<open>finally\<close> clause clears it once more.
\<close>

definition process_multiple_spins ::
  "env \<Rightarrow> gateway \<Rightarrow> (nat \<Rightarrow> nat) \<Rightarrow> bot_state \<Rightarrow> xrd \<Rightarrow> user_id \<Rightarrow> int
     \<Rightarrow> reply list \<times> ledger_call list \<times> bot_state" where
  "process_multiple_spins w g dice s amount user_id num_spins =
     (let dice_values = map dice [0..<nat num_spins] in
      case users w user_id of
        None \<Rightarrow>
          ([Rolling num_spins amount, AccountNotFound], [],
           clear_ongoing (clear_ongoing s user_id) user_id)
      | Some (address, private_key, public_key) \<Rightarrow>
          (case game_account w of
             None \<Rightarrow>
               ([Rolling num_spins amount, GameAccountNotConfigured], [],
                clear_ongoing (clear_ongoing s user_id) user_id)
           | Some (game_address, game_private_key, game_public_key) \<Rightarrow>
               (let (winning_spins, total_winnings, total_cost, net_result) =
                      settle_spins amount num_spins dice_values;
                    manifest = settle_spin_manifest game_address address net_result;
                    (calls, result) =
                      (if net_result \<noteq> 0 then
                         (if net_result > 0 then
                            ([Submit manifest game_address game_private_key game_public_key],
                             submit_transaction_with_manifest g manifest
                               game_address game_private_key game_public_key)
                          else
                            ([Submit manifest address private_key public_key],
                             submit_transaction_with_manifest g manifest
                               address private_key public_key))
                       else ([], []))
                in if net_result \<noteq> 0 \<and> has_key result ''error'' then
                     ([Rolling num_spins amount, TransactionFailed (dict_get result ''error'' [])],
                      calls, clear_ongoing (clear_ongoing s user_id) user_id)
                   else
                     (let s1 = (if net_result > 0
                                then s\<lparr>total_winnings_paid :=
                                         total_winnings_paid s + (net_result - 1 / 2)\<rparr>
                                else s)
                      in ([Rolling num_spins amount,
                           Results winning_spins total_winnings total_cost net_result],
                          calls, clear_ongoing s1 user_id)))))"

section \<open>Withdrawal: \<^verbatim>\<open>withdraw\<close>\<close>

text \<open>
  The number printed by the format specification \<^verbatim>\<open>:.2f\<close>: the multiple of 0.01 nearest to
  the value, a tie going to the even hundredth.
\<close>

definition format_2f :: "rat \<Rightarrow> rat" where
  "format_2f x =
     (let n = x * 100;
          f = \<lfloor>n\<rfloor>;
          d = n - of_int f
      in (if d < 1 / 2 then of_int f
          else if 1 / 2 < d then of_int (f + 1)
          else if even f then of_int f else of_int (f + 1)) / 100)"

text \<open>The optional second argument of the command, the amount to withdraw.\<close>

definition parse_withdraw_amount :: "env \<Rightarrow> string list \<Rightarrow> reply + xrd option" where
  "parse_withdraw_amount w args =
     (if length args > 1 then
        (case float_of w (args ! 1) of
           None \<Rightarrow> Inl InvalidWithdrawAmount
         | Some amount \<Rightarrow> if amount \<le> 0 then Inl EnterPositiveAmount else Inr (Some amount))
      else Inr None)"

text \<open>
  The result is the replies, the ledger calls, the new state, and whether the call ended
  in an exception (the balance request is made outside the \<^verbatim>\<open>try\<close> block).
\<close>

definition withdraw ::
  "env \<Rightarrow> gateway \<Rightarrow> bot_state \<Rightarrow> user_id \<Rightarrow> string list
     \<Rightarrow> reply list \<times> ledger_call list \<times> bot_state \<times> bool" where
  "withdraw w g s user_id args =
     (if \<not> check_maintenance_mode w user_id then ([MaintenanceMode], [], s, False)
      else if \<not> chat_permitted w then ([NotPermitted], [], s, False)
      else if is_ongoing s user_id then ([WithdrawWhileSpinning], [], s, False)
      else if args = [] then ([WithdrawUsage], [], s, False)
      else
        (let to_address = hd args in
         case parse_withdraw_amount w args of
           Inl r \<Rightarrow> ([r], [], s, False)
         | Inr requested \<Rightarrow>
             (case users w user_id of
                None \<Rightarrow> ([NoAccountYet], [], s, False)
              | Some (address, private_key, public_key) \<Rightarrow>
                  (case radix_balance w address of
                     None \<Rightarrow> ([], [GetBalance address], s, True)
                   | Some balance \<Rightarrow>
                       (let amount = (case requested of None \<Rightarrow> balance | Some a \<Rightarrow> a) in
                        if amount > balance
                        then ([InsufficientBalance balance], [GetBalance address], s, False)
                        else if amount \<le> 101 / 100
                        then ([WithdrawalTooSmall], [GetBalance address], s, False)
                        else
                          (let manifest = withdraw_tokens_manifest address to_address amount;
                               result = submit_transaction_with_manifest g manifest
                                          address private_key public_key;
                               calls = [GetBalance address,
                                        Submit manifest address private_key public_key]
                           in if has_key result ''error''
                              then ([WithdrawFailedLater (dict_get result ''error'' [])],
                                    calls, s, False)
                              else
                                (let transaction_status = dict_get result ''status'' [] in
                                 if SIMULATION_MODE g \<or> transaction_status = ''CommittedSuccess''
                                 then
                                   (let actual_amount = amount - 1000001 / 1000000;
                                        transaction_id =
                                          dict_get result ''transaction_id'' ''unknown''
                                    in ([WithdrewSuccessfully (format_2f actual_amount) to_address
                                           (1000001 / 1000000) transaction_id],
                                        calls,
                                        s\<lparr>transactions := transactions s
                                             @ [(user_id, ''withdraw'', actual_amount)]\<rparr>,
                                        False))
                                 else
                                   ([WithdrawalNotCompleted
                                       (dict_get result ''error_message'' ''Unknown error'')],
                                    calls, s, False))))))))"

fun is_withdraw_success :: "reply \<Rightarrow> bool" where
  "is_withdraw_success (WithdrewSuccessfully a t f i) = True"
| "is_withdraw_success r = False"

section \<open>Confirmed submissions\<close>

text \<open>
  A submission counts as confirmed when the result dictionary carries no \<^verbatim>\<open>error\<close> key and
  its status is \<^verbatim>\<open>CommittedSuccess\<close>; this is the test that \<^verbatim>\<open>withdraw\<close> and
  \<^verbatim>\<open>send_winnings_with_retry\<close> apply to a result.
\<close>

definition confirmed_success :: "pydict \<Rightarrow> bool" where
  "confirmed_success result =
     (\<not> has_key result ''error'' \<and> dict_get result ''status'' [] = ''CommittedSuccess'')"

section \<open>Example inputs\<close>

text \<open>
  A store with one user (handle 7, live balance 20) and the game account, whose live
  balance is the parameter; the configured percentage is 5.
\<close>

definition example_env :: "xrd \<Rightarrow> env" where
  "example_env house_balance =
     \<lparr>users = [7 \<mapsto> (''acct_user'', ''priv_user'', ''pub_user'')],
      game_account = Some (''acct_game'', ''priv_game'', ''pub_game''),
      radix_balance = (\<lambda>a. if a = ''acct_game'' then Some house_balance else Some 20),
      float_of = (\<lambda>s. if s = ''0.5'' then Some (1 / 2)
                       else if s = ''1'' then Some 1
                       else if s = ''5'' then Some 5
                       else if s = ''10'' then Some 10 else None),
      int_of = (\<lambda>s. if s = ''3'' then Some 3 else None),
      MAX_WIN_PERCENTAGE = 5, GAME_OWNER_TELEGRAM_ID = 1, MAINTENANCE_MODE = False,
      chat_permitted = True\<rparr>"

definition idle_state :: bot_state where
  "idle_state = \<lparr>ongoing_spins = Map.empty, total_winnings_paid = 0, transactions = []\<rparr>"

text \<open>
  A gateway on the real toolkit whose status endpoint gives the same answer to every
  request.
\<close>

definition example_gateway :: "poll \<Rightarrow> gateway" where
  "example_gateway answer =
     \<lparr>SIMULATION_MODE = False, USING_REAL_TOOLKIT = True, sim_transaction_id = ''sim_tx_0'',
      manifest_error = None, keys_convertible = True, submit_error = None,
      intent_hash = ''txid_1'', status_polls = (\<lambda>transaction_id i. answer)\<rparr>"

section \<open>Properties of the wager validator\<close>

lemma max_win_mono:
  fixes p :: rat
  assumes "0 \<le> p" "h1 \<le> h2"
  shows "max 0 (h1 * (p / 100)) \<le> max 0 (h2 * (p / 100))"
proof -
  have "h1 * (p / 100) \<le> h2 * (p / 100)"
    using assms by (intro mult_right_mono) simp_all
  then show ?thesis by (simp add: max_def)
qed

text \<open>
  C5. For every house balance and each of the three variants, \<open>calculate_max_bet\<close> is
  \<open>min ceiling (max 0 (h * pct / 100) / multiplier)\<close> with multiplier 12 (standard), 48
  (sevens only) and 5 (die); the sevens-only result is additionally capped at a quarter of
  the ceiling. With a balance of 1000 and 5 percent the standard variant allows a maximal
  win of 50 and a maximal bet of 50/12 = 25/6 = 4.1666...
\<close>

theorem calculate_max_bet_formula:
  "calculate_max_bet p h False False = min MAX_SPIN_AMOUNT (max 0 (h * p / 100) / 12)
   \<and> calculate_max_bet p h True False
       = min (min MAX_SPIN_AMOUNT (max 0 (h * p / 100) / 48)) (MAX_SPIN_AMOUNT / 4)
   \<and> calculate_max_bet p h False True = min MAX_SPIN_AMOUNT (max 0 (h * p / 100) / 5)
   \<and> MAX_SPIN_AMOUNT = 1000
   \<and> max 0 (1000 * (5 / 100)) = (50 :: rat)
   \<and> calculate_max_bet 5 1000 False False = min 1000 (50 / 12)
   \<and> calculate_max_bet 5 1000 False False = 25 / 6"
  by (simp add: calculate_max_bet_def MAX_SPIN_AMOUNT_def Let_def)

text \<open>
  C8. For a non-negative configured percentage and every variant, \<open>calculate_max_bet\<close> is
  monotonically non-decreasing in the house balance, and its result never exceeds the
  global ceiling \<open>MAX_SPIN_AMOUNT\<close>.
\<close>

theorem calculate_max_bet_mono_bounded:
  assumes "0 \<le> p" and "h1 \<le> h2"
  shows "calculate_max_bet p h1 seven die \<le> calculate_max_bet p h2 seven die
         \<and> calculate_max_bet p h2 seven die \<le> MAX_SPIN_AMOUNT"
proof -
  let ?w1 = "max 0 (h1 * (p / 100))" and ?w2 = "max 0 (h2 * (p / 100))"
  have w: "?w1 \<le> ?w2" using assms by (rule max_win_mono)
  have d: "?w1 / m \<le> ?w2 / m" if "0 < m" for m :: rat
    using w that by (simp add: divide_right_mono)
  have "?w1 / 48 \<le> ?w2 / 48" "?w1 / 5 \<le> ?w2 / 5" "?w1 / 12 \<le> ?w2 / 12"
    by (rule d, simp)+
  then show ?thesis
    by (auto simp: calculate_max_bet_def Let_def min_def)
qed

theorem calculate_max_bet_mono_bounded_witness:
  "(0::rat) \<le> 5 \<and> (1000::rat) \<le> 2000
   \<and> calculate_max_bet 5 1000 False False \<le> calculate_max_bet 5 2000 False False
   \<and> calculate_max_bet 5 2000 False False \<le> MAX_SPIN_AMOUNT"
  using calculate_max_bet_mono_bounded [of 5 1000 2000 False False] by simp

text \<open>
  C6, as the code has it. With the game balance available and \<open>max_bet\<close> the maximal bet
  computed from it: a request \<^verbatim>\<open>max\<close> (in any letter case) of a user with an account and
  live balance \<open>user_balance\<close> is rejected exactly when \<open>min max_bet (user_balance - 0.5)\<close>
  is below the minimum stake, and otherwise returns that value. A numeric request, from
  any user, with or without an account, is rejected when it is below the minimum stake;
  otherwise, when it exceeds \<open>max_bet\<close>, it is clamped down to \<open>max_bet\<close> and accepted, not
  silently but after a notice of the adjustment has been sent to the user; otherwise it is
  returned unchanged without a reply. So a numeric request that meets the minimum stake is
  never rejected for exceeding the maximum.
\<close>

theorem get_spin_amount_resolution:
  assumes "get_game_account_balance w = Some game_balance"
    and "max_bet = calculate_max_bet (MAX_WIN_PERCENTAGE w) game_balance seven die"
  shows "(lower req_max = ''max''
            \<and> users w user_id = Some (address, private_key, public_key)
            \<and> radix_balance w address = Some user_balance
          \<longrightarrow> get_spin_amount w user_id req_max seven die =
                (if min max_bet (user_balance - 1 / 2) < MIN_SPIN_AMOUNT
                 then ([BalanceBelowMinimum user_balance], None)
                 else ([], Some (min max_bet (user_balance - 1 / 2)))))
         \<and> (lower req_num \<noteq> ''max'' \<and> float_of w req_num = Some amount
          \<longrightarrow> get_spin_amount w any_user req_num seven die =
                (if amount < MIN_SPIN_AMOUNT then ([MinimumSpinAmountIs], None)
                 else if max_bet < amount
                 then ([ExceedsMaximumAdjusting amount max_bet], Some max_bet)
                 else ([], Some amount)))"
proof -
  have m: "min max_bet (max 0 (user_balance - 1 / 2)) < MIN_SPIN_AMOUNT
           \<longleftrightarrow> min max_bet (user_balance - 1 / 2) < MIN_SPIN_AMOUNT"
    by (auto simp: MIN_SPIN_AMOUNT_def min_def max_def)
  have e: "\<not> min max_bet (user_balance - 1 / 2) < MIN_SPIN_AMOUNT
           \<Longrightarrow> min max_bet (max 0 (user_balance - 1 / 2)) = min max_bet (user_balance - 1 / 2)"
    unfolding MIN_SPIN_AMOUNT_def min_def max_def by (simp split: if_splits)
  have req_max: "get_spin_amount w user_id req_max seven die =
                (if min max_bet (user_balance - 1 / 2) < MIN_SPIN_AMOUNT
                 then ([BalanceBelowMinimum user_balance], None)
                 else ([], Some (min max_bet (user_balance - 1 / 2))))"
    if "lower req_max = ''max''"
      and "users w user_id = Some (address, private_key, public_key)"
      and "radix_balance w address = Some user_balance"
    using assms that m e by (simp add: get_spin_amount_def Let_def)
  have req_num: "get_spin_amount w any_user req_num seven die =
                (if amount < MIN_SPIN_AMOUNT then ([MinimumSpinAmountIs], None)
                 else if max_bet < amount
                 then ([ExceedsMaximumAdjusting amount max_bet], Some max_bet)
                 else ([], Some amount))"
    if "lower req_num \<noteq> ''max''" and "float_of w req_num = Some amount"
    using assms that by (simp add: get_spin_amount_def Let_def)
  from req_max req_num show ?thesis by blast
qed

text \<open>
  User 7 has an account with a live balance of 20; user 8 has none, and the numeric
  request is resolved for that user all the same.
\<close>

theorem get_spin_amount_resolution_witness:
  "get_spin_amount (example_env 1000) 7 ''max'' False False = ([], Some (25 / 6))
   \<and> users (example_env 1000) 8 = None
   \<and> get_spin_amount (example_env 1000) 8 ''5'' False False
       = ([ExceedsMaximumAdjusting 5 (25 / 6)], Some (25 / 6))"
  using get_spin_amount_resolution [where w = "example_env 1000" and game_balance = 1000
      and max_bet = "25 / 6" and seven = False and die = False and req_max = "''max''"
      and user_id = 7 and address = "''acct_user''" and private_key = "''priv_user''"
      and public_key = "''pub_user''" and user_balance = 20 and req_num = "''5''"
      and amount = 5 and any_user = 8]
  by (simp add: example_env_def get_game_account_balance_def lower_def lower_char_def
      calculate_max_bet_def MAX_SPIN_AMOUNT_def MIN_SPIN_AMOUNT_def Let_def)

text \<open>
  The clamp is not silent. With a house balance of 1000 the maximal bet is 25/6; the numeric
  request 5 meets the minimum stake, exceeds the maximum and is clamped to 25/6, and the
  user is sent the notice of the adjustment.
\<close>

theorem get_spin_amount_clamp_not_silent:
  "float_of (example_env 1000) ''5'' = Some 5
   \<and> calculate_max_bet (MAX_WIN_PERCENTAGE (example_env 1000)) 1000 False False = 25 / 6
   \<and> get_spin_amount (example_env 1000) 7 ''5'' False False
       = ([ExceedsMaximumAdjusting 5 (25 / 6)], Some (25 / 6))
   \<and> fst (get_spin_amount (example_env 1000) 7 ''5'' False False) \<noteq> []"
  by (simp add: get_spin_amount_def example_env_def get_game_account_balance_def lower_def
      lower_char_def calculate_max_bet_def MAX_SPIN_AMOUNT_def MIN_SPIN_AMOUNT_def Let_def)

section \<open>Properties of the session guard\<close>

lemma spin_task_state:
  assumes "spin w s user_id args = (rs, Task amount u n, s')"
  shows "\<not> is_ongoing s user_id \<and> s' = set_ongoing s user_id"
  using assms
  by (auto simp: spin_def Let_def split: if_splits sum.splits option.splits prod.splits)

lemma spin_busy:
  assumes "is_ongoing s user_id"
  shows "snd (spin w s user_id args) = (Rejected, s)"
  using assms by (simp add: spin_def)

lemma example_spin:
  "spin (example_env 1000) idle_state 7 [''5'', ''3'']
     = ([ExceedsMaximumAdjusting 5 (25 / 6)], Task (25 / 6) 7 3, set_ongoing idle_state 7)"
  by (simp add: spin_def parse_num_spins_def check_maintenance_mode_def is_ongoing_def
      idle_state_def example_env_def get_spin_amount_def get_game_account_balance_def
      lower_def lower_char_def calculate_max_bet_def MAX_SPIN_AMOUNT_def MIN_SPIN_AMOUNT_def
      Let_def)

text \<open>
  C7. A call of \<open>spin\<close> for a handle that is marked busy is rejected and leaves the state
  unchanged. When a call has started a batch (the first acquisition), the handle was free
  before and is busy afterwards, and a second call for the same handle in that state is
  rejected without a state change: of the two, exactly one succeeds. Clearing the flag
  twice gives the same state as clearing it once, and the handle is then free. The handler
  has no suspension point between its test of the flag and its setting, so on the
  single-threaded event loop two calls for one handle always run in sequence.
\<close>

theorem spin_session_guard:
  assumes "is_ongoing s user_id"
    and "spin w_first s_free user_id args_first
           = (rs_first, Task amount_first u_first n_first, s_held)"
  shows "snd (spin w s user_id args) = (Rejected, s)
         \<and> \<not> is_ongoing s_free user_id \<and> is_ongoing s_held user_id
         \<and> snd (spin w s_held user_id args) = (Rejected, s_held)
         \<and> clear_ongoing (clear_ongoing s user_id) user_id = clear_ongoing s user_id
         \<and> \<not> is_ongoing (clear_ongoing s user_id) user_id"
proof -
  from assms(2) have free: "\<not> is_ongoing s_free user_id"
    and upd: "s_held = set_ongoing s_free user_id"
    using spin_task_state by blast+
  from upd have held: "is_ongoing s_held user_id"
    by (simp add: is_ongoing_def set_ongoing_def)
  show ?thesis
    using assms(1) free held
    by (simp add: spin_busy) (simp add: clear_ongoing_def is_ongoing_def)
qed

theorem spin_session_guard_witness:
  "is_ongoing (set_ongoing idle_state 7) 7
   \<and> spin (example_env 1000) idle_state 7 [''5'', ''3'']
       = ([ExceedsMaximumAdjusting 5 (25 / 6)], Task (25 / 6) 7 3, set_ongoing idle_state 7)
   \<and> snd (spin (example_env 1000) (set_ongoing idle_state 7) 7 [''5''])
       = (Rejected, set_ongoing idle_state 7)
   \<and> \<not> is_ongoing idle_state 7
   \<and> clear_ongoing (clear_ongoing (set_ongoing idle_state 7) 7) 7
       = clear_ongoing (set_ongoing idle_state 7) 7"
  using spin_session_guard [where s = "set_ongoing idle_state 7" and user_id = 7
      and w_first = "example_env 1000" and s_free = idle_state
      and args_first = "[''5'', ''3'']" and rs_first = "[ExceedsMaximumAdjusting 5 (25 / 6)]"
      and amount_first = "25 / 6" and u_first = 7 and n_first = 3
      and s_held = "set_ongoing idle_state 7" and w = "example_env 1000"
      and args = "[''5'']"] example_spin
  by (simp add: is_ongoing_def set_ongoing_def)

section \<open>Properties of the settlement\<close>

lemma tally_total:
  "snd (tally is_win m a i dvs (ws, tw)) = tw + (\<Sum>v\<leftarrow>filter is_win dvs. a * m)"
  by (induction dvs arbitrary: i ws tw) simp_all

lemma settle_with_parts:
  "settle_with is_win m a n dvs =
     (fst (tally is_win m a 0 dvs ([], 0)),
      (\<Sum>v\<leftarrow>filter is_win dvs. a * m),
      a * of_int n,
      (\<Sum>v\<leftarrow>filter is_win dvs. a * m) - a * of_int n)"
proof -
  obtain ws tw where t: "tally is_win m a 0 dvs ([], 0) = (ws, tw)"
    by (cases "tally is_win m a 0 dvs ([], 0)")
  then have "tw = (\<Sum>v\<leftarrow>filter is_win dvs. a * m)"
    using tally_total [of is_win m a 0 dvs "[]" 0] by simp
  with t show ?thesis by (simp add: settle_with_def Let_def)
qed

text \<open>
  C3. For every amount per play \<open>a\<close>, play count \<open>n\<close> and list of dice values, the total
  winnings are the sum of \<open>a\<close> times the variant's multiplier (12, 48 for sevens only, 5 for
  the die) over the winning values, the total cost is \<open>a * n\<close>, and the net result is the
  total winnings minus the total cost. With \<open>a = 10\<close>, \<open>n = 3\<close> and the standard values
  1, 2, 3 (win, lose, lose) this gives 120, 30 and 90.
\<close>

theorem settlement_arithmetic:
  "(case settle_spins a n dvs of (winning_spins, total_winnings, total_cost, net_result) \<Rightarrow>
      total_winnings = (\<Sum>v\<leftarrow>filter (\<lambda>v. v \<in> set [1, 22, 43, 64]) dvs. a * 12)
      \<and> total_cost = a * of_int n \<and> net_result = total_winnings - total_cost)
   \<and> (case settle_spins_7s a n dvs of (winning_spins, total_winnings, total_cost, net_result) \<Rightarrow>
      total_winnings = (\<Sum>v\<leftarrow>filter (\<lambda>v. v = 64) dvs. a * 48)
      \<and> total_cost = a * of_int n \<and> net_result = total_winnings - total_cost)
   \<and> (case settle_die_rolls a n dvs of (winning_spins, total_winnings, total_cost, net_result) \<Rightarrow>
      total_winnings = (\<Sum>v\<leftarrow>filter (\<lambda>v. v = 6) dvs. a * 5)
      \<and> total_cost = a * of_int n \<and> net_result = total_winnings - total_cost)
   \<and> settle_spins 10 3 [1, 2, 3] = ([1], 120, 30, 90)"
  by (simp add: settle_spins_def settle_spins_7s_def settle_die_rolls_def settle_with_parts)

text \<open>
  The batch processor once the user row, the game row and the settlement are known: no
  submission for a zero net result, otherwise one submission signed by the paying party,
  whose result decides between the failure reply and the recorded outcome.
\<close>

lemma pms_unfold:
  assumes "users w user_id = Some (address, private_key, public_key)"
    and "game_account w = Some (ga, gk, gp)"
    and "settle_spins amount num_spins (map dice [0..<nat num_spins]) = (ws, tw, tc, net)"
  shows "process_multiple_spins w g dice s amount user_id num_spins =
     (if net = 0 then
        ([Rolling num_spins amount, Results ws tw tc net], [], clear_ongoing s user_id)
      else
        (let manifest = settle_spin_manifest ga address net;
             signer = (if 0 < net then (ga, gk, gp) else (address, private_key, public_key));
             result = submit_transaction_with_manifest g manifest
                        (fst signer) (fst (snd signer)) (snd (snd signer))
         in if has_key result ''error'' then
              ([Rolling num_spins amount, TransactionFailed (dict_get result ''error'' [])],
               [Submit manifest (fst signer) (fst (snd signer)) (snd (snd signer))],
               clear_ongoing (clear_ongoing s user_id) user_id)
            else
              ([Rolling num_spins amount, Results ws tw tc net],
               [Submit manifest (fst signer) (fst (snd signer)) (snd (snd signer))],
               clear_ongoing
                 (if 0 < net
                  then s\<lparr>total_winnings_paid := total_winnings_paid s + (net - 1 / 2)\<rparr>
                  else s) user_id)))"
  using assms by (simp add: process_multiple_spins_def Let_def)

lemma total_clear:
  "total_winnings_paid (clear_ongoing s u) = total_winnings_paid s"
  by (simp add: clear_ongoing_def)

lemma poll_status_exhausted:
  assumes "\<And>j. polls j = PollError \<or> (\<exists>r. polls j = PollJson r
            \<and> dict_get r ''status'' ''Unknown''
                \<notin> set [''CommittedSuccess'', ''CommittedFailure'', ''Rejected''])"
  shows "poll_status n i polls =
     [(''status'', ''Unknown''),
      (''error_message'', ''Timed out waiting for transaction confirmation'')]"
proof (induction n arbitrary: i)
  case 0
  show ?case by simp
next
  case (Suc n)
  from assms [of i] show ?case
    by (auto simp: Suc Let_def)
qed

lemma submit_pending:
  "submit_transaction_with_manifest (example_gateway (PollJson [(''status'', ''Pending'')])) m a k p
     = [(''transaction_id'', ''txid_1''), (''status'', ''Unknown''),
        (''error_message'', ''Timed out waiting for transaction confirmation'')]"
proof -
  have "poll_status 10 0 (\<lambda>i. PollJson [(''status'', ''Pending'')]) =
     [(''status'', ''Unknown''),
      (''error_message'', ''Timed out waiting for transaction confirmation'')]"
    by (rule poll_status_exhausted) (simp add: dict_get_def)
  then show ?thesis
    by (simp add: submit_transaction_with_manifest_def example_gateway_def
        check_transaction_status_def dict_get_def Let_def)
qed

lemma submit_committed:
  "submit_transaction_with_manifest
     (example_gateway (PollJson [(''status'', ''CommittedSuccess'')])) m a k p
     = [(''transaction_id'', ''txid_1''), (''status'', ''CommittedSuccess''),
        (''error_message'', [])]"
  by (simp add: submit_transaction_with_manifest_def example_gateway_def
      check_transaction_status_def dict_get_def Let_def eval_nat_numeral)

lemma example_settle: "settle_spins 10 3 (map (\<lambda>k. k + 1) [0..<nat 3]) = ([1], 120, 30, 90)"
  by (simp add: settle_spins_def settle_with_def upt_rec numeral_nat)

lemma zero_settle: "settle_spins 0 3 (map (\<lambda>k. k + 1) [0..<nat 3]) = ([1], 0, 0, 0)"
  by (simp add: settle_spins_def settle_with_def upt_rec numeral_nat)

lemma example_rows:
  "users (example_env h) 7 = Some (''acct_user'', ''priv_user'', ''pub_user'')"
  "game_account (example_env h) = Some (''acct_game'', ''priv_game'', ''pub_game'')"
  by (simp_all add: example_env_def)

text \<open>
  C1, evaluated on the code. The status endpoint answers \<^verbatim>\<open>Pending\<close> to all ten requests, so
  the submission returns status \<^verbatim>\<open>Unknown\<close> with the time-out message and no \<^verbatim>\<open>error\<close> key.
  For a batch of three plays of 10 with one win (net result 90) the processor then reports
  the results as for a confirmed settlement and raises the winnings-paid counter by 89.5;
  only the busy flag is released as the claim says.
\<close>

theorem unknown_status_settled_as_success:
  "submit_transaction_with_manifest (example_gateway (PollJson [(''status'', ''Pending'')]))
       (settle_spin_manifest ''acct_game'' ''acct_user'' 90) ''acct_game'' ''priv_game'' ''pub_game''
     = [(''transaction_id'', ''txid_1''), (''status'', ''Unknown''),
        (''error_message'', ''Timed out waiting for transaction confirmation'')]
   \<and> fst (process_multiple_spins (example_env 1000)
            (example_gateway (PollJson [(''status'', ''Pending'')]))
            (\<lambda>k. k + 1) (set_ongoing idle_state 7) 10 7 3)
       = [Rolling 3 10, Results [1] 120 30 90]
   \<and> total_winnings_paid (snd (snd (process_multiple_spins (example_env 1000)
            (example_gateway (PollJson [(''status'', ''Pending'')]))
            (\<lambda>k. k + 1) (set_ongoing idle_state 7) 10 7 3)))
       = total_winnings_paid (set_ongoing idle_state 7) + 179 / 2
   \<and> \<not> is_ongoing (snd (snd (process_multiple_spins (example_env 1000)
            (example_gateway (PollJson [(''status'', ''Pending'')]))
            (\<lambda>k. k + 1) (set_ongoing idle_state 7) 10 7 3))) 7"
  using pms_unfold [OF example_rows [of 1000] example_settle,
      where g = "example_gateway (PollJson [(''status'', ''Pending'')])"
        and s = "set_ongoing idle_state 7"]
  by (simp add: submit_pending has_key_def Let_def clear_ongoing_def is_ongoing_def)

text \<open>
  C2. For a batch whose user and game rows exist and whose submission, if there is one, is
  confirmed: when the net result is positive the winnings-paid counter grows by exactly the
  net result minus 0.5, while the amount withdrawn from the game account in the submitted
  manifest is the full net result; when the net result is negative or zero the counter is
  unchanged.
\<close>

theorem settlement_counter:
  assumes "users w user_id = Some (address, private_key, public_key)"
    and "game_account w = Some (ga, gk, gp)"
    and "settle_spins amount num_spins (map dice [0..<nat num_spins]) = (ws, tw, tc, net)"
    and "net \<noteq> 0 \<Longrightarrow>
           confirmed_success
             (submit_transaction_with_manifest g (settle_spin_manifest ga address net)
                (if 0 < net then ga else address)
                (if 0 < net then gk else private_key)
                (if 0 < net then gp else public_key))"
  shows "total_winnings_paid (snd (snd (process_multiple_spins w g dice s amount user_id num_spins)))
           = total_winnings_paid s + (if 0 < net then net - 1 / 2 else 0)
         \<and> (0 < net \<longrightarrow>
              fst (snd (process_multiple_spins w g dice s amount user_id num_spins))
                = [Submit [LockFee ga (1 / 2), WithdrawXRD ga net,
                           TakeFromWorktop net ''winnings'',
                           TryDepositOrAbort address ''winnings''] ga gk gp])"
proof (cases "net = 0")
  case True
  then show ?thesis
    using pms_unfold [OF assms(1-3), of g s] by (simp add: total_clear)
next
  case False
  with assms(4) show ?thesis
    using pms_unfold [OF assms(1-3), of g s]
    by (auto simp: confirmed_success_def Let_def total_clear settle_spin_manifest_def)
qed

theorem settlement_counter_witness:
  "total_winnings_paid (snd (snd (process_multiple_spins (example_env 1000)
       (example_gateway (PollJson [(''status'', ''CommittedSuccess'')]))
       (\<lambda>k. k + 1) (set_ongoing idle_state 7) 10 7 3)))
     = total_winnings_paid (set_ongoing idle_state 7) + (90 - 1 / 2)
   \<and> fst (snd (process_multiple_spins (example_env 1000)
       (example_gateway (PollJson [(''status'', ''CommittedSuccess'')]))
       (\<lambda>k. k + 1) (set_ongoing idle_state 7) 10 7 3))
     = [Submit [LockFee ''acct_game'' (1 / 2), WithdrawXRD ''acct_game'' 90,
                TakeFromWorktop 90 ''winnings'', TryDepositOrAbort ''acct_user'' ''winnings'']
          ''acct_game'' ''priv_game'' ''pub_game'']"
  using settlement_counter [where w = "example_env 1000" and user_id = 7
      and address = "''acct_user''" and private_key = "''priv_user''"
      and public_key = "''pub_user''" and ga = "''acct_game''" and gk = "''priv_game''"
      and gp = "''pub_game''" and amount = 10 and num_spins = 3 and dice = "\<lambda>k. k + 1"
      and ws = "[1]" and tw = 120 and tc = 30 and net = 90
      and g = "example_gateway (PollJson [(''status'', ''CommittedSuccess'')])"
      and s = "set_ongoing idle_state 7"] example_settle
  by (simp add: submit_committed confirmed_success_def has_key_def dict_get_def example_rows)

text \<open>
  C4. For a batch whose user and game rows exist: a zero net result submits nothing and the
  batch ends with the results reply, the counter untouched and the busy flag cleared; a
  positive net result submits exactly one manifest that withdraws the net result from the
  game account and deposits it to the user, signed with the game account's keys; a negative
  net result submits exactly one manifest that withdraws its absolute value from the user's
  account and deposits it to the game account, signed with the user's keys.
\<close>

theorem settlement_transfer:
  assumes "users w user_id = Some (address, private_key, public_key)"
    and "game_account w = Some (ga, gk, gp)"
    and "settle_spins amount num_spins (map dice [0..<nat num_spins]) = (ws, tw, tc, net)"
  shows "fst (snd (process_multiple_spins w g dice s amount user_id num_spins)) =
           (if net = 0 then []
            else if 0 < net then
              [Submit [LockFee ga (1 / 2), WithdrawXRD ga net,
                       TakeFromWorktop net ''winnings'',
                       TryDepositOrAbort address ''winnings''] ga gk gp]
            else
              [Submit [LockFee address (1 / 2), WithdrawXRD address \<bar>net\<bar>,
                       TakeFromWorktop \<bar>net\<bar> ''payment'',
                       TryDepositOrAbort ga ''payment''] address private_key public_key])
         \<and> (net = 0 \<longrightarrow>
              process_multiple_spins w g dice s amount user_id num_spins
                = ([Rolling num_spins amount, Results ws tw tc net], [], clear_ongoing s user_id))"
  using pms_unfold [OF assms, of g s]
  by (simp add: Let_def settle_spin_manifest_def)

theorem settlement_transfer_witness:
  "fst (snd (process_multiple_spins (example_env 1000) (example_gateway PollError)
       (\<lambda>k. k + 1) (set_ongoing idle_state 7) 10 7 3))
     = [Submit [LockFee ''acct_game'' (1 / 2), WithdrawXRD ''acct_game'' 90,
                TakeFromWorktop 90 ''winnings'', TryDepositOrAbort ''acct_user'' ''winnings'']
          ''acct_game'' ''priv_game'' ''pub_game'']
   \<and> process_multiple_spins (example_env 1000) (example_gateway PollError)
       (\<lambda>k. k + 1) (set_ongoing idle_state 7) 0 7 3
     = ([Rolling 3 0, Results [1] 0 0 0], [], clear_ongoing (set_ongoing idle_state 7) 7)"
  using settlement_transfer [where w = "example_env 1000" and user_id = 7
      and address = "''acct_user''" and private_key = "''priv_user''"
      and public_key = "''pub_user''" and ga = "''acct_game''" and gk = "''priv_game''"
      and gp = "''pub_game''" and amount = 10 and num_spins = 3 and dice = "\<lambda>k. k + 1"
      and ws = "[1]" and tw = 120 and tc = 30 and net = 90
      and g = "example_gateway PollError" and s = "set_ongoing idle_state 7"]
    settlement_transfer [where w = "example_env 1000" and user_id = 7
      and address = "''acct_user''" and private_key = "''priv_user''"
      and public_key = "''pub_user''" and ga = "''acct_game''" and gk = "''priv_game''"
      and gp = "''pub_game''" and amount = 0 and num_spins = 3 and dice = "\<lambda>k. k + 1"
      and ws = "[1]" and tw = 0 and tc = 0 and net = 0
      and g = "example_gateway PollError" and s = "set_ongoing idle_state 7"]
    example_settle zero_settle
  by (simp add: example_rows)

section \<open>Properties of the withdrawal\<close>

lemma withdraw_small:
  assumes "length args > 1" and "float_of w (args ! 1) = Some a" and "a \<le> 101 / 100"
  shows "(case withdraw w g s user_id args of (replies, calls, s', raised) \<Rightarrow>
            s' = s \<and> filter is_submit calls = []
            \<and> filter is_withdraw_success replies = [])"
  using assms
  by (auto simp: withdraw_def parse_withdraw_amount_def Let_def
      split: option.splits prod.splits)

lemma example_withdraw_small:
  "withdraw (example_env 1000) g idle_state 7 [''acct_dest'', ''1'']
     = ([WithdrawalTooSmall], [GetBalance ''acct_user''], idle_state, False)"
  by (simp add: withdraw_def parse_withdraw_amount_def check_maintenance_mode_def
      is_ongoing_def idle_state_def example_env_def Let_def)

text \<open>
  C9, as the code has it. A withdrawal request whose amount argument is at most 1.01 never
  reaches a transaction submission: the call submits nothing, leaves the state (and with it
  the transaction log) unchanged and sends no success reply. The rejection is not before
  every ledger call: when the handler's earlier checks pass, the amount is positive, the
  user has an account and the amount does not exceed the live balance, the balance of the
  user's address is queried first, and the request is then rejected as too small.
\<close>

theorem withdraw_small_amount_rejected:
  assumes "length args > 1" and "float_of w (args ! 1) = Some a" and "a \<le> 101 / 100"
  shows "(case withdraw w g s user_id args of (replies, calls, s', raised) \<Rightarrow>
            s' = s \<and> filter is_submit calls = []
            \<and> filter is_withdraw_success replies = [])
         \<and> (check_maintenance_mode w user_id \<and> chat_permitted w \<and> \<not> is_ongoing s user_id
              \<and> 0 < a \<and> users w user_id = Some (address, private_key, public_key)
              \<and> radix_balance w address = Some balance \<and> a \<le> balance
             \<longrightarrow> withdraw w g s user_id args
                   = ([WithdrawalTooSmall], [GetBalance address], s, False))"
proof -
  have "args \<noteq> []" using assms(1) by auto
  then show ?thesis
    using assms withdraw_small [OF assms, where g = g and s = s and user_id = user_id]
    by (auto simp: withdraw_def parse_withdraw_amount_def Let_def)
qed

theorem withdraw_small_amount_rejected_witness:
  "withdraw (example_env 1000) (example_gateway PollError) idle_state 7 [''acct_dest'', ''1'']
     = ([WithdrawalTooSmall], [GetBalance ''acct_user''], idle_state, False)"
  using withdraw_small_amount_rejected [where args = "[''acct_dest'', ''1'']"
      and w = "example_env 1000" and a = 1 and g = "example_gateway PollError"
      and s = idle_state and user_id = 7 and address = "''acct_user''"
      and private_key = "''priv_user''" and public_key = "''pub_user''" and balance = 20]
  by (simp add: check_maintenance_mode_def is_ongoing_def idle_state_def example_env_def)

text \<open>
  The claim as the specification words it fails: user 7 has an account with a live balance
  of 20 and asks to withdraw 1. The request is rejected as too small, but only after the
  balance of the user's address has been queried on the ledger.
\<close>

theorem withdraw_balance_query_precedes_rejection:
  "fst (snd (withdraw (example_env 1000) (example_gateway PollError) idle_state 7
               [''acct_dest'', ''1''])) = [GetBalance ''acct_user'']
   \<and> fst (withdraw (example_env 1000) (example_gateway PollError) idle_state 7
               [''acct_dest'', ''1'']) = [WithdrawalTooSmall]
   \<and> float_of (example_env 1000) ''1'' = Some 1 \<and> (1 :: rat) \<le> 101 / 100"
  by (simp add: example_withdraw_small) (simp add: example_env_def)

lemma format_2f_cases:
  "format_2f x = of_int \<lfloor>x * 100\<rfloor> / 100 \<or> format_2f x = of_int (\<lfloor>x * 100\<rfloor> + 1) / 100"
  by (simp add: format_2f_def Let_def)

lemma format_2f_nearest:
  "\<bar>format_2f x - x\<bar> \<le> 1 / 200 \<and> (\<exists>k :: int. format_2f x = of_int k / 100)"
proof
  define f where "f = \<lfloor>x * 100\<rfloor>"
  have lo: "of_int f \<le> x * 100" and hi: "x * 100 < of_int f + 1"
    unfolding f_def by linarith+
  consider "x * 100 - of_int f < 1 / 2" | "1 / 2 < x * 100 - of_int f"
    | "x * 100 - of_int f = 1 / 2" by linarith
  then have "\<bar>format_2f x * 100 - x * 100\<bar> \<le> 1 / 2"
  proof cases
    case 1
    then have "format_2f x * 100 = of_int f"
      by (simp add: format_2f_def Let_def f_def)
    with 1 lo show ?thesis by simp
  next
    case 2
    then have "format_2f x * 100 = of_int f + 1"
      by (simp add: format_2f_def Let_def f_def)
    with 2 hi show ?thesis by simp
  next
    case 3
    then have "format_2f x * 100 = of_int f \<or> format_2f x * 100 = of_int f + 1"
      by (simp add: format_2f_def Let_def f_def)
    with 3 show ?thesis by auto
  qed
  then show "\<bar>format_2f x - x\<bar> \<le> 1 / 200"
    by (simp add: abs_if split: if_splits)
  show "\<exists>k :: int. format_2f x = of_int k / 100"
    using format_2f_cases [of x] by blast
qed

text \<open>
  C10, as the code has it. A withdrawal of a requested amount \<open>a\<close> with \<open>1.01 < a\<close> and
  \<open>a\<close> at most the live balance, whose submission comes back without an error and
  committed (or in simulation mode), submits one manifest that withdraws \<open>a - 1.000001\<close>
  from the user's account and appends the record (user, withdraw, \<open>a - 1.000001\<close>) to the
  transaction log. The user is reported a fee of 1.000001 and, as the withdrawn amount,
  \<open>a - 1.000001\<close> printed with two decimals: a multiple of 0.01 that differs from
  \<open>a - 1.000001\<close> by at most 0.005.
\<close>

theorem successful_withdrawal:
  assumes "check_maintenance_mode w user_id" and "chat_permitted w"
    and "\<not> is_ongoing s user_id"
    and "args = to_address # requested # more_args" and "float_of w requested = Some a"
    and "users w user_id = Some (address, private_key, public_key)"
    and "radix_balance w address = Some balance"
    and "101 / 100 < a" and "a \<le> balance"
    and "result = submit_transaction_with_manifest g
                    (withdraw_tokens_manifest address to_address a)
                    address private_key public_key"
    and "\<not> has_key result ''error''"
    and "SIMULATION_MODE g \<or> dict_get result ''status'' [] = ''CommittedSuccess''"
  shows "withdraw w g s user_id args =
           ([WithdrewSuccessfully (format_2f (a - 1000001 / 1000000)) to_address
               (1000001 / 1000000) (dict_get result ''transaction_id'' ''unknown'')],
            [GetBalance address,
             Submit [LockFee address 1,
                     WithdrawXRD address (a - 1000001 / 1000000),
                     TakeAllFromWorktop ''tokens'',
                     TryDepositOrAbort to_address ''tokens''] address private_key public_key],
            s\<lparr>transactions := transactions s
                 @ [(user_id, ''withdraw'', a - 1000001 / 1000000)]\<rparr>,
            False)
         \<and> \<bar>format_2f (a - 1000001 / 1000000) - (a - 1000001 / 1000000)\<bar> \<le> 1 / 200
         \<and> (\<exists>k :: int. format_2f (a - 1000001 / 1000000) = of_int k / 100)"
proof -
  have "0 < a" using assms(8) by simp
  then have "withdraw w g s user_id args =
           ([WithdrewSuccessfully (format_2f (a - 1000001 / 1000000)) to_address
               (1000001 / 1000000) (dict_get result ''transaction_id'' ''unknown'')],
            [GetBalance address,
             Submit [LockFee address 1,
                     WithdrawXRD address (a - 1000001 / 1000000),
                     TakeAllFromWorktop ''tokens'',
                     TryDepositOrAbort to_address ''tokens''] address private_key public_key],
            s\<lparr>transactions := transactions s
                 @ [(user_id, ''withdraw'', a - 1000001 / 1000000)]\<rparr>,
            False)"
    using assms
    by (simp add: withdraw_def parse_withdraw_amount_def Let_def withdraw_tokens_manifest_def)
  then show ?thesis
    using format_2f_nearest [of "a - 1000001 / 1000000"] by blast
qed

lemma floor_example: "\<lfloor>8999999 / 10000 :: rat\<rfloor> = 899"
  by (rule floor_unique) simp_all

lemma format_2f_example: "format_2f (8999999 / 1000000) = 9"
  by (simp add: format_2f_def Let_def floor_example)

theorem successful_withdrawal_witness:
  "withdraw (example_env 1000)
       (example_gateway (PollJson [(''status'', ''CommittedSuccess'')]))
       idle_state 7 [''acct_dest'', ''10'']
     = ([WithdrewSuccessfully 9 ''acct_dest'' (1000001 / 1000000) ''txid_1''],
        [GetBalance ''acct_user'',
         Submit [LockFee ''acct_user'' 1, WithdrawXRD ''acct_user'' (8999999 / 1000000),
                 TakeAllFromWorktop ''tokens'', TryDepositOrAbort ''acct_dest'' ''tokens'']
           ''acct_user'' ''priv_user'' ''pub_user''],
        idle_state\<lparr>transactions := [(7, ''withdraw'', 8999999 / 1000000)]\<rparr>,
        False)"
  using successful_withdrawal [where w = "example_env 1000" and user_id = 7 and s = idle_state
      and args = "[''acct_dest'', ''10'']" and to_address = "''acct_dest''"
      and requested = "''10''" and more_args = "[]" and a = 10 and address = "''acct_user''"
      and private_key = "''priv_user''" and public_key = "''pub_user''" and balance = 20
      and result = "[(''transaction_id'', ''txid_1''), (''status'', ''CommittedSuccess''),
        (''error_message'', [])]"
      and g = "example_gateway (PollJson [(''status'', ''CommittedSuccess'')])"]
  by (simp add: submit_committed check_maintenance_mode_def is_ongoing_def idle_state_def
      example_env_def has_key_def dict_get_def format_2f_example)

text \<open>
  The reported amount is not \<open>a - 1.000001\<close> itself. User 7 withdraws 10 from a balance
  of 20: the manifest and the record carry 8.999999, and the reply reports 9.00.
\<close>

theorem withdrawal_reported_with_two_decimals:
  "fst (withdraw (example_env 1000)
         (example_gateway (PollJson [(''status'', ''CommittedSuccess'')]))
         idle_state 7 [''acct_dest'', ''10''])
     = [WithdrewSuccessfully 9 ''acct_dest'' (1000001 / 1000000) ''txid_1'']
   \<and> float_of (example_env 1000) ''10'' = Some 10
   \<and> (9 :: rat) \<noteq> 10 - 1000001 / 1000000"
  by (simp add: withdraw_def parse_withdraw_amount_def check_maintenance_mode_def
      is_ongoing_def idle_state_def example_env_def Let_def submit_committed has_key_def
      dict_get_def format_2f_example)

end
